theory Spec2Isabelle
  imports Main "HOL-Library.AList" "HOL-Library.Multiset"
begin

text \<open>
  The credential pool and the fallback router of the LLM gateway: the key manager
  (\<open>project/core/llm_gateway/key_manager.py\<close>), the router configuration
  (\<open>config.py\<close>) and the gateway (\<open>gateway.py\<close>). The coroutines are modelled as they
  run when no other task is scheduled between their steps: functions that take the
  state of the key manager and return the new one. Exceptions are values.
\<close>

section \<open>Python string and dictionary operations used by the gateway\<close>

text \<open>
  Strings are lists of characters, and the characters are taken to be ASCII. Only the operations the key manager and the
  gateway apply to strings are modelled: \<open>str.startswith\<close>, \<open>str.endswith\<close>,
  \<open>str.replace\<close>, \<open>str.split(',')\<close>, \<open>str.strip()\<close>, \<open>str.lower()\<close> and the
  substring test \<open>a in b\<close>.
\<close>

definition startswith :: "string \<Rightarrow> string \<Rightarrow> bool" where
  "startswith s p = (take (length p) s = p)"

definition endswith :: "string \<Rightarrow> string \<Rightarrow> bool" where
  "endswith s p = (length p \<le> length s \<and> drop (length s - length p) s = p)"

text \<open>\<open>s.replace(old, new)\<close> for a non-empty \<open>old\<close>: every non-overlapping occurrence,
  scanning from the left.\<close>

function replace :: "string \<Rightarrow> string \<Rightarrow> string \<Rightarrow> string" where
  "replace old new [] = []"
| "replace old new (c # cs) =
     (if old \<noteq> [] \<and> take (length old) (c # cs) = old
      then new @ replace old new (drop (length old) (c # cs))
      else c # replace old new cs)"
  by pat_completeness auto
termination
  by (relation "measure (\<lambda>(old, new, s). length s)") (auto simp: neq_Nil_conv)

text \<open>\<open>s.split(sep)\<close> for a one-character separator: always at least one field.\<close>

fun split :: "char \<Rightarrow> string \<Rightarrow> string list" where
  "split sep [] = [[]]"
| "split sep (c # cs) =
     (if c = sep then [] # split sep cs
      else (case split sep cs of
              [] \<Rightarrow> [[c]]
            | f # fs \<Rightarrow> (c # f) # fs))"

text \<open>The ASCII characters for which \<open>str.isspace\<close> holds.\<close>

definition isspace :: "char \<Rightarrow> bool" where
  "isspace c = (c \<in> set [CHR '' '', CHR 0x09, CHR 0x0A, CHR 0x0B, CHR 0x0C, CHR 0x0D,
                          CHR 0x1C, CHR 0x1D, CHR 0x1E, CHR 0x1F])"

definition strip :: "string \<Rightarrow> string" where
  "strip s = rev (dropWhile isspace (rev (dropWhile isspace s)))"

definition lower_char :: "char \<Rightarrow> char" where
  "lower_char c =
     (case map_of (zip ''ABCDEFGHIJKLMNOPQRSTUVWXYZ'' ''abcdefghijklmnopqrstuvwxyz'') c of
        None \<Rightarrow> c
      | Some d \<Rightarrow> d)"

definition lower :: "string \<Rightarrow> string" where
  "lower s = map lower_char s"

text \<open>\<open>sub in s\<close> on strings.\<close>

fun contains :: "string \<Rightarrow> string \<Rightarrow> bool" where
  "contains [] sub = (sub = [])"
| "contains (c # cs) sub = (take (length sub) (c # cs) = sub \<or> contains cs sub)"

text \<open>\<open>list(dict.fromkeys(keys))\<close>: the keys are inserted one by one into an empty
  dictionary; inserting a key that is already present leaves the order as it is.\<close>

definition dict_fromkeys :: "'a list \<Rightarrow> 'a list" where
  "dict_fromkeys ks = fold (\<lambda>k d. if k \<in> set d then d else d @ [k]) ks []"

section \<open>The key manager (\<open>key_manager.py\<close>)\<close>

text \<open>
  \<open>ApiKeyManager._providers\<close> maps a provider name to a dictionary with the entries
  \<open>"keys"\<close> (an unbounded \<open>asyncio.Queue\<close>, here the list of its items, oldest first)
  and \<open>"quarantine"\<close> (a dictionary that the code creates and never touches again).
  The outer dictionary is an association list in insertion order.
\<close>

record pool =
  keys :: "string list"
  quarantine :: "(string \<times> nat) list"

record ApiKeyManager =
  providers :: "(string \<times> pool) list"
  initialized :: bool

text \<open>
  What the loader sees of the project root: the names \<open>os.listdir\<close> returns, in its
  order, each with the outcome of opening the file and searching its content for the
  line \<open><NAME>_API_KEYS="..."\<close>. Reading the file and the regular-expression search are
  done by Python's library; the model takes their outcome: an exception, no match, or
  the matched group (the text between the quotes). The listing itself is taken to
  succeed.
\<close>

datatype env_file = Unreadable | NoKeyLine | KeyLine string

type_synonym directory = "(string \<times> env_file) list"

datatype error =
    NoKeysAvailableError string
  | GetKeyTimeoutError string
  | ValueError string
  | ClientError string

definition GET_KEY_TIMEOUT_SECONDS :: nat where
  "GET_KEY_TIMEOUT_SECONDS = 30"

text \<open>\<open>[key.strip() for key in keys_str.split(',') if key.strip()]\<close>\<close>

definition parse_keys :: "string \<Rightarrow> string list" where
  "parse_keys keys_str = map strip (filter (\<lambda>key. strip key \<noteq> []) (split CHR '','' keys_str))"

text \<open>\<open>self._providers[provider]["keys"].put_nowait(key)\<close> and \<open>put\<close>: the queue is
  unbounded, so both append and neither blocks.\<close>

definition put :: "string \<Rightarrow> string \<Rightarrow> (string \<times> pool) list \<Rightarrow> (string \<times> pool) list" where
  "put provider key ps =
     (case map_of ps provider of
        None \<Rightarrow> ps
      | Some pl \<Rightarrow> AList.update provider (pl\<lparr>keys := keys pl @ [key]\<rparr>) ps)"

text \<open>The body of the loop over the provider files, for one file.\<close>

definition load_file :: "string \<times> env_file \<Rightarrow> (string \<times> pool) list \<Rightarrow> (string \<times> pool) list" where
  "load_file = (\<lambda>(filename, file) ps.
     let provider = replace ''.env.'' [] filename in
     case file of
       Unreadable \<Rightarrow> ps
     | NoKeyLine \<Rightarrow> ps
     | KeyLine keys_str \<Rightarrow>
         let keys = parse_keys keys_str in
         if keys \<noteq> [] then
           let unique_keys = dict_fromkeys keys;
               ps1 = (if map_of ps provider = None
                      then AList.update provider \<lparr>keys = [], quarantine = []\<rparr> ps
                      else ps)
           in fold (put provider) unique_keys ps1
         else ps)"

definition provider_env_files :: "directory \<Rightarrow> directory" where
  "provider_env_files dir =
     filter (\<lambda>(f, _). startswith f ''.env.'' \<and> \<not> endswith f ''.example'') dir"

definition load_keys_from_provider_env_files :: "directory \<Rightarrow> ApiKeyManager \<Rightarrow> ApiKeyManager" where
  "load_keys_from_provider_env_files dir m =
     m\<lparr>providers := fold load_file (provider_env_files dir) (providers m)\<rparr>"

definition initialize_providers :: "directory \<Rightarrow> ApiKeyManager \<Rightarrow> ApiKeyManager" where
  "initialize_providers dir m =
     (if \<not> initialized m
      then (load_keys_from_provider_env_files dir m)\<lparr>initialized := True\<rparr>
      else m)"

definition get_available_providers :: "ApiKeyManager \<Rightarrow> string list" where
  "get_available_providers m = map fst (providers m)"

text \<open>
  \<open>asyncio.wait_for(queue.get(), timeout)\<close> as seen by one task when no other task
  puts an item while it waits: the oldest item if there is one, \<open>TimeoutError\<close>
  (\<open>None\<close>) after the timeout otherwise.
\<close>

definition wait_for_get :: "nat \<Rightarrow> string list \<Rightarrow> (string \<times> string list) option" where
  "wait_for_get timeout q = (case q of [] \<Rightarrow> None | k # ks \<Rightarrow> Some (k, ks))"

definition get_key :: "directory \<Rightarrow> string \<Rightarrow> ApiKeyManager \<Rightarrow> (error + string) \<times> ApiKeyManager" where
  "get_key dir provider m0 =
     (let m = (if \<not> initialized m0 then initialize_providers dir m0 else m0) in
      case map_of (providers m) provider of
        None \<Rightarrow> (Inl (NoKeysAvailableError provider), m)
      | Some pl \<Rightarrow>
          if keys pl = [] then (Inl (NoKeysAvailableError provider), m)
          else (case wait_for_get GET_KEY_TIMEOUT_SECONDS (keys pl) of
                  None \<Rightarrow> (Inl (GetKeyTimeoutError provider), m)
                | Some (k, ks) \<Rightarrow>
                    (Inr k, m\<lparr>providers := AList.update provider (pl\<lparr>keys := ks\<rparr>) (providers m)\<rparr>)))"

definition release_key :: "string \<Rightarrow> string \<Rightarrow> bool \<Rightarrow> ApiKeyManager \<Rightarrow> ApiKeyManager" where
  "release_key provider key is_permanently_invalid m =
     (if map_of (providers m) provider = None then m
      else if is_permanently_invalid then m
      else m\<lparr>providers := put provider key (providers m)\<rparr>)"

text \<open>The manager as \<open>ApiKeyManager()\<close> constructs it.\<close>

definition new_manager :: ApiKeyManager where
  "new_manager = \<lparr>providers = [], initialized = False\<rparr>"

text \<open>The items of a provider's queue; no items when the provider has no pool.\<close>

definition queue_of :: "ApiKeyManager \<Rightarrow> string \<Rightarrow> string list" where
  "queue_of m provider = (case map_of (providers m) provider of None \<Rightarrow> [] | Some pl \<Rightarrow> keys pl)"

section \<open>The router configuration (\<open>config.py\<close>)\<close>

text \<open>
  \<open>MODELS_REGISTRY\<close> maps a model name to its details (a dictionary of strings with the
  entry \<open>"provider"\<close>); \<open>MODEL_GROUPS\<close> maps a group name to its fallback chain. The
  gateway is stated for any such pair; \<open>gateway_config\<close> is the pair the file defines.
\<close>

record config =
  MODELS_REGISTRY :: "(string \<times> (string \<times> string) list) list"
  MODEL_GROUPS :: "(string \<times> string list) list"

definition get_model_config :: "config \<Rightarrow> string \<Rightarrow> (string \<times> string) list option" where
  "get_model_config cfg model_name = map_of (MODELS_REGISTRY cfg) model_name"

definition get_model_group :: "config \<Rightarrow> string \<Rightarrow> string list" where
  "get_model_group cfg group_name =
     (case map_of (MODEL_GROUPS cfg) group_name of None \<Rightarrow> [] | Some models \<Rightarrow> models)"

definition gateway_config :: config where
  "gateway_config = \<lparr>MODELS_REGISTRY =
  [
    (''gemini-3-pro-preview'',
      [(''provider'', ''google''),
       (''mode'', ''reasoning''),
       (''description'', ''Gemini 3 Pro Preview.'')]),
    (''gemini-2.5-pro'',
      [(''provider'', ''google''),
       (''mode'', ''reasoning''),
       (''description'', ''Gemini 2.5 Pro.'')]),
    (''gemini-2.5-pro-preview-06-05'',
      [(''provider'', ''google''),
       (''mode'', ''reasoning''),
       (''description'', ''Gemini 2.5 Pro Preview (June).'')]),
    (''gemini-2.5-pro-preview-05-06'',
      [(''provider'', ''google''),
       (''mode'', ''reasoning''),
       (''description'', ''Gemini 2.5 Pro Preview (May).'')]),
    (''gemini-2.5-pro-preview-03-25'',
      [(''provider'', ''google''),
       (''mode'', ''reasoning''),
       (''description'', ''Gemini 2.5 Pro Preview (March).'')]),
    (''gemini-pro-latest'',
      [(''provider'', ''google''),
       (''mode'', ''reasoning''),
       (''description'', ''Alias for latest Pro.'')]),
    (''gemini-2.0-pro-exp'',
      [(''provider'', ''google''),
       (''mode'', ''reasoning''),
       (''description'', ''Gemini 2.0 Pro Experimental.'')]),
    (''gemini-2.0-pro-exp-02-05'',
      [(''provider'', ''google''),
       (''mode'', ''reasoning''),
       (''description'', ''Gemini 2.0 Pro Exp (Feb).'')]),
    (''gemini-exp-1206'',
      [(''provider'', ''google''),
       (''mode'', ''reasoning''),
       (''description'', ''Gemini Experimental 1206.'')]),
    (''gemini-2.5-flash'',
      [(''provider'', ''google''),
       (''mode'', ''reasoning''),
       (''description'', ''Gemini 2.5 Flash.'')]),
    (''gemini-flash-latest'',
      [(''provider'', ''google''),
       (''mode'', ''reasoning''),
       (''description'', ''Alias for latest Flash.'')]),
    (''gemini-2.0-flash'',
      [(''provider'', ''google''),
       (''mode'', ''reasoning''),
       (''description'', ''Gemini 2.0 Flash.'')]),
    (''gemini-2.0-flash-thinking-exp'',
      [(''provider'', ''google''),
       (''mode'', ''reasoning''),
       (''description'', ''Gemini 2.0 Flash Thinking.'')]),
    (''gemini-2.0-flash-thinking-exp-01-21'',
      [(''provider'', ''google''),
       (''mode'', ''reasoning''),
       (''description'', ''Gemini 2.0 Flash Thinking (Jan).'')]),
    (''gemini-2.0-flash-lite'',
      [(''provider'', ''google''),
       (''mode'', ''reasoning''),
       (''description'', ''Gemini 2.0 Flash Lite.'')]),
    (''gemini-flash-lite-latest'',
      [(''provider'', ''google''),
       (''mode'', ''reasoning''),
       (''description'', ''Alias for latest Flash Lite.'')]),
    (''gemma-3-27b-it'',
      [(''provider'', ''google''),
       (''description'', ''Gemma 3 27B Instruct.'')]),
    (''gemma-3-12b-it'',
      [(''provider'', ''google''),
       (''description'', ''Gemma 3 12B Instruct.'')]),
    (''codestral-2501'',
      [(''provider'', ''mistral''),
       (''description'', ''Mistral Codestral 2501.'')]),
    (''mistral-large-2411'',
      [(''provider'', ''mistral''),
       (''description'', ''Mistral Large 2.'')]),
    (''mistral-small-2501'',
      [(''provider'', ''mistral''),
       (''description'', ''Mistral Small 3.'')]),
    (''open-mistral-7b'',
      [(''provider'', ''mistral''),
       (''description'', ''Mistral 7B.'')]),
    (''gpt-oss-120b'',
      [(''provider'', ''cerebras''),
       (''description'', ''GPT-OSS 120B.'')]),
    (''llama-3.3-70b'',
      [(''provider'', ''cerebras''),
       (''description'', ''Llama 3.3 70B via Cerebras.'')]),
    (''llama-3.1-8b'',
      [(''provider'', ''cerebras''),
       (''description'', ''Llama 3.1 8B via Cerebras.'')]),
    (''llama-3.1-8b-instant'',
      [(''provider'', ''groq''),
       (''description'', ''Llama 3.1 8B Instant via Groq.'')]),
    (''llama-3.3-70b-versatile'',
      [(''provider'', ''groq''),
       (''description'', ''Llama 3.3 70B Versatile via Groq.'')]),
    (''command-r-plus-08-2024'',
      [(''provider'', ''cohere''),
       (''description'', ''Command R+.'')]),
    (''command-r7b-12-2024'',
      [(''provider'', ''cohere''),
       (''description'', ''Command R7B.'')])
  ],
  MODEL_GROUPS =
  [
    (''enhanced_coding'',
      [''gemini-2.5-pro'',
       ''gemini-3-pro-preview'',
       ''gemini-2.5-pro-preview-06-05'',
       ''gemini-2.5-pro-preview-05-06'',
       ''mistral-large-2411'',
       ''codestral-2501'',
       ''gemini-2.5-flash'']),
    (''enhanced_reasoning'',
      [''gemini-2.5-pro'',
       ''mistral-large-2411'',
       ''gpt-oss-120b'']),
    (''librarian_group'',
      [''gemini-2.5-flash'',
       ''gemini-pro-latest'',
       ''command-r-plus-08-2024'']),
    (''classic_coding'',
      [''gpt-oss-120b'',
       ''gemini-flash-latest'',
       ''llama-3.3-70b-versatile'',
       ''llama-3.1-8b-instant'']),
    (''classic_reasoning'',
      [''llama-3.3-70b'',
       ''gpt-oss-120b'',
       ''gemini-2.5-flash-lite'',
       ''mistral-small-2501'']),
    (''classic_secondary_reasoning'',
      [''gpt-oss-120b'',
       ''llama-3.3-70b'']),
    (''weak_coding'',
      [''llama-3.1-8b-instant'',
       ''open-mistral-7b'']),
    (''weak_reasoning'',
      [''llama-3.1-8b-instant'',
       ''open-mistral-7b'']),
    (''coding_model_group'',
      [''gemini-2.5-pro'',
       ''codestral-2501'']),
    (''reasoning_model_group'',
      [''gemini-2.5-pro'',
       ''mistral-large-2411''])
  ]\<rparr>"

section \<open>The gateway (\<open>gateway.py\<close>)\<close>

text \<open>The providers that have a client class in \<open>PROVIDER_MAP\<close>.\<close>

definition PROVIDER_MAP :: "string list" where
  "PROVIDER_MAP = [''google'', ''mistral'', ''groq'', ''cohere'', ''cerebras'']"

definition quoted :: "string \<Rightarrow> string" where
  "quoted s = [CHR 0x27] @ s @ [CHR 0x27]"

text \<open>\<open>str(e)\<close>: the message the exception was raised with.\<close>

fun str :: "error \<Rightarrow> string" where
  "str (NoKeysAvailableError provider) =
     ''No API keys configured or available for provider '' @ quoted provider @ ''.''"
| "str (GetKeyTimeoutError provider) =
     ''Timed out waiting for an API key for '' @ quoted provider @ ''.''"
| "str (ValueError msg) = msg"
| "str (ClientError msg) = msg"

text \<open>\<open>"401" in str(e) or "403" in str(e) or "API key" in str(e).lower()\<close>\<close>

definition is_auth_error :: "error \<Rightarrow> bool" where
  "is_auth_error e =
     (contains (str e) ''401'' \<or> contains (str e) ''403'' \<or> contains (lower (str e)) ''API key'')"

text \<open>Values of keyword arguments.\<close>

datatype pyval = PStr string | PInt int | PBool bool | PNone

text \<open>A dictionary display \<open>{**a, **b, k: v, ...}\<close>: the items are stored from left to
  right; storing under a key that is present replaces its value and keeps its place.\<close>

definition dict_of :: "('k \<times> 'v) list \<Rightarrow> ('k \<times> 'v) list" where
  "dict_of items = fold (\<lambda>(k, v). AList.update k v) items []"

text \<open>\<open>{**model_details, **kwargs, "prompt": prompt, "model_name": model_name}\<close>\<close>

definition call_params ::
  "(string \<times> string) list \<Rightarrow> (string \<times> pyval) list \<Rightarrow> string \<Rightarrow> string \<Rightarrow> (string \<times> pyval) list" where
  "call_params model_details kwargs prompt model_name =
     dict_of (map (\<lambda>(k, v). (k, PStr v)) model_details @ kwargs @
              [(''prompt'', PStr prompt), (''model_name'', PStr model_name)])"

text \<open>
  The provider clients are the gateway's collaborators: \<open>client_class(api_key)\<close> followed
  by \<open>client.make_request(**call_params)\<close> is a function of the outside world \<open>'w\<close>, the
  provider, the key and the parameters, which returns the response text (\<open>Inr\<close>) or
  raises an exception with a message (\<open>Inl\<close>), and changes the world.
\<close>

type_synonym 'w client =
  "'w \<Rightarrow> string \<Rightarrow> string \<Rightarrow> (string \<times> pyval) list \<Rightarrow> (string + string) \<times> 'w"

text \<open>
  What one call of the gateway does, in order: the two warnings with which a candidate
  is skipped, the calls of \<open>get_key\<close>, \<open>make_request\<close> and \<open>release_key\<close> with their
  outcome, and the exception a handler caught for a candidate (\<open>last_error = e\<close>).
\<close>

datatype event =
    ModelSkipped string
  | ProviderSkipped string string
  | GetKey string "error + string"
  | MakeRequest string string "(string \<times> pyval) list" "string + string"
  | ReleaseKey string string bool
  | Failed string error

record 'w state =
  manager :: ApiKeyManager
  world :: 'w
  trace :: "event list"

text \<open>The exceptions \<open>LLMGateway.call\<close> raises to its caller.\<close>

datatype call_error =
    GroupNotFound string
  | KeyError string
  | AllModelsFailed string "error option"

definition emit :: "event \<Rightarrow> 'w state \<Rightarrow> 'w state" where
  "emit ev st = st\<lparr>trace := trace st @ [ev]\<rparr>"

text \<open>The handler \<open>except Exception as e\<close>.\<close>

definition on_exception :: "string \<Rightarrow> string \<Rightarrow> string \<Rightarrow> error \<Rightarrow> 'w state \<Rightarrow> 'w state" where
  "on_exception model_name provider api_key e st =
     (let st1 = emit (Failed model_name e) st in
      if api_key \<noteq> []
      then emit (ReleaseKey provider api_key (is_auth_error e))
             (st1\<lparr>manager := release_key provider api_key (is_auth_error e) (manager st1)\<rparr>)
      else st1)"

text \<open>One iteration of \<open>for model_name in model_priority_list\<close>: it ends with
  \<open>continue\<close> (and the value of \<open>last_error\<close>), or leaves the function.\<close>

datatype 'w step =
    Continue "error option" "'w state"
  | Return "call_error + string" "'w state"

definition try_model ::
  "config \<Rightarrow> 'w client \<Rightarrow> directory \<Rightarrow> string list \<Rightarrow> string \<Rightarrow> (string \<times> pyval) list \<Rightarrow>
   string \<Rightarrow> error option \<Rightarrow> 'w state \<Rightarrow> 'w step" where
  "try_model cfg client dir available_providers prompt kwargs model_name last_error st =
     (case get_model_config cfg model_name of
        None \<Rightarrow> Continue last_error (emit (ModelSkipped model_name) st)
      | Some model_details \<Rightarrow>
          if model_details = [] then Continue last_error (emit (ModelSkipped model_name) st)
          else
            (case map_of model_details ''provider'' of
               None \<Rightarrow> Return (Inl (KeyError ''provider'')) st
             | Some provider \<Rightarrow>
                 if provider \<notin> set available_providers
                 then Continue last_error (emit (ProviderSkipped provider model_name) st)
                 else
                   (case get_key dir provider (manager st) of
                      (Inl e, m1) \<Rightarrow>
                        Continue (Some e)
                          (emit (Failed model_name e)
                             (emit (GetKey provider (Inl e)) (st\<lparr>manager := m1\<rparr>)))
                    | (Inr api_key, m1) \<Rightarrow>
                        let st1 = emit (GetKey provider (Inr api_key)) (st\<lparr>manager := m1\<rparr>) in
                        if provider \<notin> set PROVIDER_MAP then
                          let e = ValueError (''Provider '' @ quoted provider @ '' not supported.'')
                          in Continue (Some e) (on_exception model_name provider api_key e st1)
                        else
                          let params = call_params model_details kwargs prompt model_name in
                          (case client (world st1) provider api_key params of
                             (Inr response, w1) \<Rightarrow>
                               let st2 = emit (MakeRequest provider api_key params (Inr response))
                                           (st1\<lparr>world := w1\<rparr>)
                               in Return (Inr response)
                                    (emit (ReleaseKey provider api_key False)
                                       (st2\<lparr>manager :=
                                              release_key provider api_key False (manager st2)\<rparr>))
                           | (Inl msg, w1) \<Rightarrow>
                               let e = ClientError msg;
                                   st2 = emit (MakeRequest provider api_key params (Inl msg))
                                           (st1\<lparr>world := w1\<rparr>)
                               in Continue (Some e)
                                    (on_exception model_name provider api_key e st2)))))"

text \<open>The loop, and the \<open>raise Exception(...)\<close> after it.\<close>

fun try_models ::
  "config \<Rightarrow> 'w client \<Rightarrow> directory \<Rightarrow> string \<Rightarrow> string list \<Rightarrow> string \<Rightarrow>
   (string \<times> pyval) list \<Rightarrow> string list \<Rightarrow> error option \<Rightarrow> 'w state \<Rightarrow>
   (call_error + string) \<times> 'w state" where
  "try_models cfg client dir model_group available_providers prompt kwargs [] last_error st =
     (Inl (AllModelsFailed model_group last_error), st)"
| "try_models cfg client dir model_group available_providers prompt kwargs (model_name # rest)
     last_error st =
     (case try_model cfg client dir available_providers prompt kwargs model_name last_error st of
        Continue last_error' st' \<Rightarrow>
          try_models cfg client dir model_group available_providers prompt kwargs rest
            last_error' st'
      | Return result st' \<Rightarrow> (result, st'))"

definition call ::
  "config \<Rightarrow> 'w client \<Rightarrow> directory \<Rightarrow> string \<Rightarrow> string \<Rightarrow> (string \<times> pyval) list \<Rightarrow>
   'w state \<Rightarrow> (call_error + string) \<times> 'w state" where
  "call cfg client dir model_group prompt kwargs st =
     (let model_priority_list = get_model_group cfg model_group in
      if model_priority_list = [] then (Inl (GroupNotFound model_group), st)
      else try_models cfg client dir model_group (get_available_providers (manager st))
             prompt kwargs model_priority_list None st)"

text \<open>
  \<open>execute\<close> obtains the gateway singleton, whose creation initializes the key manager,
  and calls it. \<open>initialize_providers\<close> does nothing once the manager is initialized, so
  it is applied on every call here. The decorator \<open>observable\<close> around \<open>execute\<close>
  publishes events and passes the arguments, the result and any exception through.
\<close>

definition execute ::
  "config \<Rightarrow> 'w client \<Rightarrow> directory \<Rightarrow> string \<Rightarrow> string \<Rightarrow> (string \<times> pyval) list \<Rightarrow>
   'w state \<Rightarrow> (call_error + string) \<times> 'w state" where
  "execute cfg client dir model_group prompt kwargs st =
     call cfg client dir model_group prompt kwargs
       (st\<lparr>manager := initialize_providers dir (manager st)\<rparr>)"

section \<open>Notions used to state the properties\<close>


text \<open>The credentials a provider file yields, before deduplication.\<close>

definition credentials :: "env_file \<Rightarrow> string list" where
  "credentials file = (case file of KeyLine keys_str \<Rightarrow> parse_keys keys_str | _ \<Rightarrow> [])"

text \<open>The provider files of a directory that are read for a provider.\<close>

definition files_of :: "directory \<Rightarrow> string \<Rightarrow> directory" where
  "files_of dir provider =
     filter (\<lambda>(f, _). replace ''.env.'' [] f = provider) (provider_env_files dir)"

text \<open>The items of a provider's queue, read from the dictionary of pools.\<close>

definition pool_keys :: "(string \<times> pool) list \<Rightarrow> string \<Rightarrow> string list" where
  "pool_keys ps provider = (case map_of ps provider of None \<Rightarrow> [] | Some pl \<Rightarrow> keys pl)"









definition held :: "string \<Rightarrow> (string \<times> string) list \<Rightarrow> string multiset" where
  "held provider xs = mset (map snd (filter (\<lambda>x. fst x = provider) xs))"



text \<open>Reading a trace of the gateway: the candidates it went through, the exceptions
  its handlers caught, and the requests it sent.\<close>

fun candidate :: "event \<Rightarrow> string option" where
  "candidate (ModelSkipped model_name) = Some model_name"
| "candidate (ProviderSkipped provider model_name) = Some model_name"
| "candidate (Failed model_name e) = Some model_name"
| "candidate _ = None"


fun checkout :: "event \<Rightarrow> string option" where
  "checkout (GetKey provider r) = Some provider"
| "checkout _ = None"

fun released :: "event \<Rightarrow> (string \<times> string \<times> bool) option" where
  "released (ReleaseKey provider api_key is_permanently_invalid) =
     Some (provider, api_key, is_permanently_invalid)"
| "released _ = None"

fun request :: "event \<Rightarrow> (string \<times> pyval) list option" where
  "request (MakeRequest provider api_key params r) = Some params"
| "request _ = None"


text \<open>The events a run added to the trace.\<close>

definition new_events :: "'w state \<Rightarrow> 'w state \<Rightarrow> event list" where
  "new_events st st' = drop (length (trace st)) (trace st')"


text \<open>A dictionary has each key once; so have the details of every model.\<close>

definition is_dict :: "('k \<times> 'v) list \<Rightarrow> bool" where
  "is_dict items = distinct (map fst items)"

definition registry_dicts :: "config \<Rightarrow> bool" where
  "registry_dicts cfg = list_all (\<lambda>(model_name, model_details). is_dict model_details) (MODELS_REGISTRY cfg)"

text \<open>
  The merge of a candidate's metadata with the caller's options, as \<open>params\<close> has it:
  \<open>prompt\<close> and \<open>model_name\<close> are those of the call and of the candidate; every other
  key of the caller has the caller's value; every remaining key of the metadata has the
  metadata's value; and there are no other keys.
\<close>

definition merged ::
  "(string \<times> string) list \<Rightarrow> (string \<times> pyval) list \<Rightarrow> string \<Rightarrow> string \<Rightarrow>
   (string \<times> pyval) list \<Rightarrow> bool" where
  "merged model_details kwargs prompt model_name params =
     (map_of params ''prompt'' = Some (PStr prompt) \<and>
      map_of params ''model_name'' = Some (PStr model_name) \<and>
      list_all (\<lambda>(k, v). k = ''prompt'' \<or> k = ''model_name'' \<or> map_of params k = Some v) kwargs \<and>
      list_all (\<lambda>(k, v). k = ''prompt'' \<or> k = ''model_name'' \<or> k \<in> set (map fst kwargs) \<or>
                         map_of params k = Some (PStr v)) model_details \<and>
      list_all (\<lambda>(k, v). k = ''prompt'' \<or> k = ''model_name'' \<or> k \<in> set (map fst kwargs) \<or>
                         k \<in> set (map fst model_details)) params)"

section \<open>Example inputs\<close>

definition example_dir :: directory where
  "example_dir =
     [(''.env.google'', KeyLine ''k1, k2,k1''),
      (''.env.mistral'', KeyLine ''m1''),
      (''.env.groq'', KeyLine '' , ''),
      (''.env.example'', KeyLine ''secret'')]"

definition example_manager :: ApiKeyManager where
  "example_manager = initialize_providers example_dir new_manager"

definition example_state :: "nat state" where
  "example_state = \<lparr>manager = new_manager, world = 0, trace = []\<rparr>"

text \<open>The state of a process whose key manager has loaded the example directory.\<close>

definition example_ready :: "nat state" where
  "example_ready = \<lparr>manager = example_manager, world = 0, trace = []\<rparr>"

text \<open>The message with which Google's client reports a key that is not valid.\<close>

definition invalid_key_message :: string where
  "invalid_key_message =
     ''Google API call failed: 400 API key not valid. Please pass a valid API key.''"

text \<open>A client whose every request fails with the given message, and one that answers.
  The world counts the requests.\<close>

definition failing_client :: "string \<Rightarrow> nat client" where
  "failing_client msg w provider api_key params = (Inl msg, Suc w)"

definition echo_client :: "nat client" where
  "echo_client w provider api_key params = (Inr (''response of '' @ provider), Suc w)"



text \<open>Options of a caller, and the parameters the first candidate of
  \<open>coding_model_group\<close> is requested with under them.\<close>

definition example_kwargs :: "(string \<times> pyval) list" where
  "example_kwargs = [(''mode'', PStr ''fast''), (''temperature'', PInt 1)]"

definition example_params :: "(string \<times> pyval) list" where
  "example_params =
     [(''provider'', PStr ''google''),
      (''mode'', PStr ''fast''),
      (''description'', PStr ''Gemini 2.5 Pro.''),
      (''temperature'', PInt 1),
      (''prompt'', PStr ''hi''),
      (''model_name'', PStr ''gemini-2.5-pro'')]"

section \<open>The key manager: basic facts\<close>

lemma initialize_providers_initialized [simp]:
  "initialized m \<Longrightarrow> initialize_providers dir m = m"
  by (simp add: initialize_providers_def)

lemma initialized_initialize_providers [simp]:
  "initialized (initialize_providers dir m)"
  by (simp add: initialize_providers_def)

lemma map_of_put:
  "map_of (put provider key ps) =
     (case map_of ps provider of
        None \<Rightarrow> map_of ps
      | Some pl \<Rightarrow> (map_of ps)(provider \<mapsto> pl\<lparr>keys := keys pl @ [key]\<rparr>))"
  by (simp add: put_def update_conv' split: option.splits)


lemma initialized_release_key [simp]:
  "initialized (release_key provider key flag m) = initialized m"
  by (simp add: release_key_def)

lemma get_key_initialized:
  "initialized m \<Longrightarrow>
   get_key dir provider m =
     (case queue_of m provider of
        [] \<Rightarrow> (Inl (NoKeysAvailableError provider), m)
      | k # ks \<Rightarrow>
          (Inr k, m\<lparr>providers :=
                     AList.update provider ((the (map_of (providers m) provider))\<lparr>keys := ks\<rparr>)
                       (providers m)\<rparr>))"
  by (auto simp: get_key_def queue_of_def wait_for_get_def split: option.splits list.splits)

lemma get_key_uninitialized:
  "get_key dir provider m = get_key dir provider (initialize_providers dir m)"
  by (simp add: get_key_def)

lemma fst_get_key:
  "initialized m \<Longrightarrow>
   fst (get_key dir provider m) =
     (case queue_of m provider of [] \<Rightarrow> Inl (NoKeysAvailableError provider) | k # ks \<Rightarrow> Inr k)"
  by (simp add: get_key_initialized split: list.splits)

lemma queue_of_get_key:
  "initialized m \<Longrightarrow>
   queue_of (snd (get_key dir provider m)) p =
     (if p = provider then tl (queue_of m p) else queue_of m p)"
  by (auto simp: get_key_initialized queue_of_def update_conv' split: list.splits option.splits)

lemma initialized_get_key [simp]:
  "initialized (snd (get_key dir provider m))"
  by (auto simp: get_key_def wait_for_get_def Let_def split: option.splits list.splits)



lemma registered_iff: "(map_of (providers m) p = None) = (p \<notin> set (get_available_providers m))"
  by (simp add: get_available_providers_def map_of_eq_None_iff)

section \<open>Loading the provider files\<close>


lemma dict_fromkeys_snoc:
  "dict_fromkeys (xs @ [x]) =
     (if x \<in> set (dict_fromkeys xs) then dict_fromkeys xs else dict_fromkeys xs @ [x])"
  by (simp add: dict_fromkeys_def)

lemma set_dict_fromkeys [simp]: "set (dict_fromkeys xs) = set xs"
  by (induction xs rule: rev_induct) (auto simp: dict_fromkeys_snoc, simp add: dict_fromkeys_def)

lemma distinct_dict_fromkeys [simp]: "distinct (dict_fromkeys xs)"
  by (induction xs rule: rev_induct) (auto simp: dict_fromkeys_snoc, simp add: dict_fromkeys_def)

lemma dict_fromkeys_Nil_iff [simp]: "(dict_fromkeys xs = []) = (xs = [])"
  by (metis set_dict_fromkeys set_empty)



lemma fold_put:
  "map_of ps p = Some pl \<Longrightarrow>
   map_of (fold (put p) ks ps) = (map_of ps)(p \<mapsto> pl\<lparr>keys := keys pl @ ks\<rparr>)"
proof (induction ks arbitrary: ps pl)
  case Nil
  then show ?case by (auto simp: fun_upd_idem)
next
  case (Cons k ks)
  have "map_of (put p k ps) p = Some (pl\<lparr>keys := keys pl @ [k]\<rparr>)"
    using Cons.prems by (simp add: map_of_put)
  from Cons.IH [OF this] show ?case
    using Cons.prems by (auto simp: map_of_put fun_eq_iff)
qed

lemma map_of_load_file:
  "map_of (load_file (f, ef) ps) =
     (if dict_fromkeys (credentials ef) = [] then map_of ps
      else (map_of ps)(replace ''.env.'' [] f \<mapsto>
             \<lparr>keys = pool_keys ps (replace ''.env.'' [] f) @ dict_fromkeys (credentials ef),
              quarantine = (case map_of ps (replace ''.env.'' [] f) of
                              None \<Rightarrow> [] | Some pl \<Rightarrow> quarantine pl)\<rparr>))"
proof (cases ef)
  case (KeyLine s)
  show ?thesis
  proof (cases "parse_keys s = []")
    case True
    then show ?thesis by (simp add: load_file_def KeyLine credentials_def)
  next
    case False
    show ?thesis
    proof (cases "map_of ps (replace ''.env.'' [] f)")
      case None
      have "map_of (AList.update (replace ''.env.'' [] f) \<lparr>keys = [], quarantine = []\<rparr> ps)
              (replace ''.env.'' [] f) = Some \<lparr>keys = [], quarantine = []\<rparr>"
        by (simp add: update_conv')
      from fold_put [OF this] show ?thesis
        using None False
        by (simp add: load_file_def KeyLine credentials_def pool_keys_def update_conv' Let_def)
    next
      case (Some pl)
      from fold_put [OF this] show ?thesis
        using Some False
        by (cases pl) (simp add: load_file_def KeyLine credentials_def pool_keys_def Let_def)
    qed
  qed
qed (simp_all add: load_file_def credentials_def)


lemma registered_load_file:
  "(map_of (load_file (f, ef) ps) p = None) =
     (map_of ps p = None \<and> \<not> (replace ''.env.'' [] f = p \<and> credentials ef \<noteq> []))"
  by (auto simp: map_of_load_file)


lemma registered_fold_load_file:
  "(map_of (fold load_file fs ps) p = None) =
     (map_of ps p = None \<and>
      (\<forall>(f, ef) \<in> set fs. replace ''.env.'' [] f = p \<longrightarrow> credentials ef = []))"
  by (induction fs arbitrary: ps) (auto simp: registered_load_file)


lemma registered_initialize:
  "(map_of (providers (initialize_providers dir new_manager)) p = None) =
     (\<forall>(f, ef) \<in> set (files_of dir p). credentials ef = [])"
  by (auto simp: initialize_providers_def new_manager_def load_keys_from_provider_env_files_def
        registered_fold_load_file files_of_def)

section \<open>The gateway: traces of one call\<close>

lemma trace_emit [simp]: "trace (emit ev st) = trace st @ [ev]"
  by (simp add: emit_def)

lemma trace_on_exception:
  "trace (on_exception model_name provider api_key e st) =
     trace st @ Failed model_name e #
       (if api_key \<noteq> [] then [ReleaseKey provider api_key (is_auth_error e)] else [])"
  by (simp add: on_exception_def Let_def emit_def)

lemma map_filter_append: "List.map_filter f (xs @ ys) = List.map_filter f xs @ List.map_filter f ys"
  by (simp add: List.map_filter_def)

lemma map_filter_Cons:
  "List.map_filter f (x # xs) = (case f x of None \<Rightarrow> List.map_filter f xs | Some y \<Rightarrow> y # List.map_filter f xs)"
  by (simp add: List.map_filter_def split: option.splits)

lemma map_filter_Nil: "List.map_filter f [] = []"
  by (simp add: List.map_filter_def)





section \<open>The merged parameters\<close>

lemma map_of_fold_update:
  "map_of (fold (\<lambda>(k, v). AList.update k v) items d) = map_of d ++ map_of (rev items)"
proof (induction items arbitrary: d)
  case Nil
  show ?case by simp
next
  case (Cons x items)
  obtain k v where x: "x = (k, v)" by (cases x)
  show ?case
    by (simp add: x Cons.IH update_conv' map_of_append map_add_def fun_eq_iff
          split: option.splits)
qed

lemma map_of_dict_of: "map_of (dict_of items) = map_of (rev items)"
  by (simp add: dict_of_def map_of_fold_update)

lemma map_of_rev_dict:
  assumes "is_dict items"
  shows "map_of (rev items) = map_of items"
proof -
  have "distinct (map fst (rev items))"
    using assms by (simp add: is_dict_def flip: rev_map)
  then show ?thesis
    using map_of_inject_set [of "rev items" items] assms by (simp add: is_dict_def)
qed

lemma set_fst_dict_of: "fst ` set (dict_of items) = fst ` set items"
proof -
  have "dom (map_of (dict_of items)) = dom (map_of (rev items))"
    by (simp only: map_of_dict_of)
  then show ?thesis
    by (simp add: dom_map_of_conv_image_fst)
qed

lemma map_of_call_params:
  assumes "is_dict model_details" and "is_dict kwargs"
  shows "map_of (call_params model_details kwargs prompt model_name) k =
     (if k = ''model_name'' then Some (PStr model_name)
      else if k = ''prompt'' then Some (PStr prompt)
      else (case map_of kwargs k of
              Some v \<Rightarrow> Some v
            | None \<Rightarrow> map_option PStr (map_of model_details k)))"
proof -
  have md: "map_of (rev (map (\<lambda>(k, v). (k, PStr v)) model_details)) k =
            map_option PStr (map_of model_details k)"
  proof -
    have "is_dict (map (\<lambda>(k, v). (k, PStr v)) model_details)"
      using assms(1) by (simp add: is_dict_def comp_def case_prod_unfold)
    from map_of_rev_dict [OF this] show ?thesis
      by (simp add: map_of_map)
  qed
  show ?thesis
    using map_of_rev_dict [OF assms(2)]
    by (auto simp: call_params_def map_of_dict_of map_of_append md map_add_def
             split: option.splits)
qed

lemma merged_call_params:
  assumes "is_dict model_details" and "is_dict kwargs"
  shows "merged model_details kwargs prompt model_name
           (call_params model_details kwargs prompt model_name)"
proof -
  note m = map_of_call_params [OF assms]
  have k: "\<And>k v. (k, v) \<in> set kwargs \<Longrightarrow> map_of kwargs k = Some v"
    using assms(2) by (simp add: is_dict_def)
  have d: "\<And>k v. (k, v) \<in> set model_details \<Longrightarrow> map_of model_details k = Some v"
    using assms(1) by (simp add: is_dict_def)
  have n: "\<And>k. k \<notin> fst ` set kwargs \<Longrightarrow> map_of kwargs k = None"
    by (simp add: map_of_eq_None_iff)
  have keys: "fst ` set (call_params model_details kwargs prompt model_name) =
              fst ` set model_details \<union> fst ` set kwargs \<union> {''prompt'', ''model_name''}"
    by (auto simp: call_params_def set_fst_dict_of image_Un image_image case_prod_unfold)
  have p: "\<And>k v. (k, v) \<in> set (call_params model_details kwargs prompt model_name) \<Longrightarrow>
             k = ''prompt'' \<or> k = ''model_name'' \<or> k \<in> fst ` set kwargs \<or>
             k \<in> fst ` set model_details"
  proof -
    fix k v
    assume "(k, v) \<in> set (call_params model_details kwargs prompt model_name)"
    then have "k \<in> fst ` set (call_params model_details kwargs prompt model_name)"
      by force
    then show "k = ''prompt'' \<or> k = ''model_name'' \<or> k \<in> fst ` set kwargs \<or>
             k \<in> fst ` set model_details"
      unfolding keys by blast
  qed
  have a: "map_of (call_params model_details kwargs prompt model_name) ''prompt'' =
             Some (PStr prompt)"
    and b: "map_of (call_params model_details kwargs prompt model_name) ''model_name'' =
             Some (PStr model_name)"
    by (simp_all add: m)
  have c: "k = ''prompt'' \<or> k = ''model_name'' \<or>
           map_of (call_params model_details kwargs prompt model_name) k = Some v"
    if "(k, v) \<in> set kwargs" for k v
    using k [OF that] by (simp add: m)
  have e: "k = ''prompt'' \<or> k = ''model_name'' \<or> k \<in> set (map fst kwargs) \<or>
           map_of (call_params model_details kwargs prompt model_name) k = Some (PStr v)"
    if "(k, v) \<in> set model_details" for k v
  proof (cases "k \<in> fst ` set kwargs")
    case True
    then show ?thesis by simp
  next
    case False
    from n [OF this] d [OF that] show ?thesis by (simp add: m)
  qed
  show ?thesis
    unfolding merged_def list_all_iff
  proof (intro conjI ballI)
    fix x assume "x \<in> set kwargs"
    then show "case x of (k, v) \<Rightarrow> k = ''prompt'' \<or> k = ''model_name'' \<or>
                 map_of (call_params model_details kwargs prompt model_name) k = Some v"
      using c [of "fst x" "snd x"] by (simp add: case_prod_unfold)
  next
    fix x assume "x \<in> set model_details"
    then show "case x of (k, v) \<Rightarrow> k = ''prompt'' \<or> k = ''model_name'' \<or>
                 k \<in> set (map fst kwargs) \<or>
                 map_of (call_params model_details kwargs prompt model_name) k = Some (PStr v)"
      using e [of "fst x" "snd x"] by (simp add: case_prod_unfold)
  next
    fix x assume "x \<in> set (call_params model_details kwargs prompt model_name)"
    then show "case x of (k, v) \<Rightarrow> k = ''prompt'' \<or> k = ''model_name'' \<or>
                 k \<in> set (map fst kwargs) \<or> k \<in> set (map fst model_details)"
      using p [of "fst x" "snd x"] by (simp add: case_prod_unfold)
  qed (rule a, rule b)
qed

lemma registry_dicts_details:
  assumes "registry_dicts cfg" and "get_model_config cfg model_name = Some model_details"
  shows "is_dict model_details"
proof -
  have "(model_name, model_details) \<in> set (MODELS_REGISTRY cfg)"
    using assms(2) by (auto simp: get_model_config_def dest: map_of_SomeD)
  then show ?thesis
    using assms(1) by (auto simp: registry_dicts_def list_all_iff)
qed

lemma try_model_requests:
  assumes "try_model cfg client dir avail prompt kwargs model_name last_error st = s"
    and "s = Continue le st' \<or> s = Return r st'"
  shows "\<exists>es. trace st' = trace st @ es \<and>
           (\<forall>params \<in> set (List.map_filter request es).
              \<exists>model_details. get_model_config cfg model_name = Some model_details \<and>
                 params = call_params model_details kwargs prompt model_name)"
  using assms
  by (auto simp: try_model_def Let_def trace_on_exception map_filter_Cons map_filter_Nil
           split: option.splits if_splits prod.splits sum.splits)

lemma try_models_requests:
  assumes "try_models cfg client dir model_group avail prompt kwargs models last_error st = (r, st')"
  shows "\<exists>es. trace st' = trace st @ es \<and>
           (\<forall>params \<in> set (List.map_filter request es).
              \<exists>model_name \<in> set models. \<exists>model_details.
                 get_model_config cfg model_name = Some model_details \<and>
                 params = call_params model_details kwargs prompt model_name)"
  using assms
proof (induction models arbitrary: last_error st)
  case Nil
  then show ?case
    by (auto simp: map_filter_Nil intro!: exI [of _ "[]"])
next
  case (Cons model_name rest)
  show ?case
  proof (cases "try_model cfg client dir avail prompt kwargs model_name last_error st")
    case (Return r1 st1)
    then have "st1 = st'"
      using Cons.prems by simp
    with try_model_requests [OF Return disjI2 [OF refl]]
    show ?thesis by auto
  next
    case (Continue le1 st1)
    from try_model_requests [OF this disjI1 [OF refl]]
    obtain es1 where t1: "trace st1 = trace st @ es1"
      and r1: "\<forall>params \<in> set (List.map_filter request es1).
              \<exists>model_details. get_model_config cfg model_name = Some model_details \<and>
                 params = call_params model_details kwargs prompt model_name"
      by auto
    have "try_models cfg client dir model_group avail prompt kwargs rest le1 st1 = (r, st')"
      using Cons.prems Continue by simp
    from Cons.IH [OF this]
    obtain es2 where t2: "trace st' = trace st1 @ es2"
      and r2: "\<forall>params \<in> set (List.map_filter request es2).
              \<exists>model_name \<in> set rest. \<exists>model_details.
                 get_model_config cfg model_name = Some model_details \<and>
                 params = call_params model_details kwargs prompt model_name"
      by auto
    show ?thesis
      using t1 t2 r1 r2
      by (intro exI [of _ "es1 @ es2"]) (auto simp: map_filter_append)
  qed
qed

section \<open>Classifying an exception\<close>

lemma contains_set: "contains s sub \<Longrightarrow> set sub \<subseteq> set s"
proof (induction s)
  case Nil
  then show ?case by simp
next
  case (Cons c cs)
  show ?case
  proof (cases "take (length sub) (c # cs) = sub")
    case True
    then have "set sub = set (take (length sub) (c # cs))" by simp
    also have "\<dots> \<subseteq> set (c # cs)" by (rule set_take_subset)
    finally show ?thesis .
  next
    case False
    then have "contains cs sub" using Cons.prems by simp
    from Cons.IH [OF this] show ?thesis by auto
  qed
qed

lemma lower_char_not_A: "lower_char c \<noteq> CHR ''A''"
  by (simp add: lower_char_def)

lemma api_key_test_never_holds: "\<not> contains (lower s) ''API key''"
proof
  assume "contains (lower s) ''API key''"
  from contains_set [OF this] have "CHR ''A'' \<in> set (lower s)"
    by simp
  then obtain c where "lower_char c = CHR ''A''"
    by (auto simp: lower_def)
  then show False
    by (simp add: lower_char_not_A)
qed

lemma is_auth_error_codes:
  "is_auth_error e = (contains (str e) ''401'' \<or> contains (str e) ''403'')"
  by (simp add: is_auth_error_def api_key_test_never_holds)

section \<open>Checking out a key\<close>

text \<open>
  C1, as the code has it: \<open>get_key\<close> looks at the provider's queue when it is called
  (after the lazy initialization). If the provider has no pool or its queue is empty,
  whether no key was ever configured or all keys are checked out or retired, it fails
  at once with \<open>NoKeysAvailableError\<close>, without waiting; otherwise it returns the oldest
  key of the queue and removes it. A call that is not interleaved with other tasks never
  ends with \<open>GetKeyTimeoutError\<close>.
\<close>

theorem get_key_empty_queue:
  "fst (get_key dir provider m) =
     (case queue_of (initialize_providers dir m) provider of
        [] \<Rightarrow> Inl (NoKeysAvailableError provider)
      | key # rest \<Rightarrow> Inr key) \<and>
   queue_of (snd (get_key dir provider m)) provider =
     tl (queue_of (initialize_providers dir m) provider)"
proof -
  have "get_key dir provider m = get_key dir provider (initialize_providers dir m)"
    by (rule get_key_uninitialized)
  then show ?thesis
    by (simp add: fst_get_key queue_of_get_key)
qed

text \<open>
  The provider \<open>mistral\<close> has one configured key. Once it is checked out, the next
  \<open>get_key\<close> fails with \<open>NoKeysAvailableError\<close> instead of waiting for a release.
\<close>

theorem get_key_all_checked_out_counterexample:
  "queue_of example_manager ''mistral'' = [''m1''] \<and>
   fst (get_key example_dir ''mistral'' example_manager) = Inr ''m1'' \<and>
   fst (get_key example_dir ''mistral'' (snd (get_key example_dir ''mistral'' example_manager))) =
     Inl (NoKeysAvailableError ''mistral'')"
  by code_simp

section \<open>Authentication failures\<close>

text \<open>
  C2, at a failure whose message contains \<open>API key\<close> and neither \<open>401\<close> nor \<open>403\<close>:
  the test \<open>"API key" in str(e).lower()\<close> looks for upper-case letters in a lower-cased
  message and never holds (\<open>api_key_test_never_holds\<close>), so the failure is not taken as
  an authentication failure, and the keys of both candidates are released back to their
  queues instead of being retired.
\<close>

theorem invalid_key_not_retired:
  "contains (lower invalid_key_message) ''api key'' \<and>
   \<not> is_auth_error (ClientError invalid_key_message) \<and>
   fst (call gateway_config (failing_client invalid_key_message) example_dir
          ''coding_model_group'' ''hi'' [] example_ready) =
     Inl (AllModelsFailed ''coding_model_group'' (Some (ClientError invalid_key_message))) \<and>
   List.map_filter released
     (new_events example_ready
        (snd (call gateway_config (failing_client invalid_key_message) example_dir
                ''coding_model_group'' ''hi'' [] example_ready))) =
     [(''google'', ''k1'', False), (''mistral'', ''m1'', False)] \<and>
   queue_of (manager (snd (call gateway_config (failing_client invalid_key_message) example_dir
                             ''coding_model_group'' ''hi'' [] example_ready))) ''google'' =
     [''k2'', ''k1'']"
  by code_simp

section \<open>Retired keys\<close>






section \<open>The life cycle of credentials\<close>


lemma held_Nil [simp]: "held p [] = {#}"
  by (simp add: held_def)







section \<open>Exhausting the candidates\<close>



section \<open>Unknown groups\<close>

text \<open>
  C6: for a group name that the router configuration does not have, \<open>call\<close> raises the
  group-not-found error and leaves the state as it is; \<open>execute\<close> does so after
  initializing the key manager: it calls \<open>get_key\<close> for no provider, goes through no
  candidate, sends no request, and every queue is as initialization left it.
\<close>

theorem unknown_group:
  assumes "map_of (MODEL_GROUPS cfg) model_group = None"
  shows "call cfg client dir model_group prompt kwargs st = (Inl (GroupNotFound model_group), st) \<and>
         execute cfg client dir model_group prompt kwargs st =
           (Inl (GroupNotFound model_group),
            st\<lparr>manager := initialize_providers dir (manager st)\<rparr>) \<and>
         List.map_filter checkout
           (new_events st (snd (execute cfg client dir model_group prompt kwargs st))) = [] \<and>
         List.map_filter candidate
           (new_events st (snd (execute cfg client dir model_group prompt kwargs st))) = [] \<and>
         world (snd (execute cfg client dir model_group prompt kwargs st)) = world st \<and>
         (\<forall>provider. queue_of (manager (snd (execute cfg client dir model_group prompt kwargs st)))
                        provider =
                      queue_of (initialize_providers dir (manager st)) provider)"
proof -
  have g: "get_model_group cfg model_group = []"
    using assms by (simp add: get_model_group_def)
  have c: "\<And>st. call cfg client dir model_group prompt kwargs st = (Inl (GroupNotFound model_group), st)"
    by (simp add: call_def g)
  show ?thesis
    by (simp add: c execute_def new_events_def map_filter_Nil)
qed

theorem unknown_group_witness:
  "map_of (MODEL_GROUPS gateway_config) ''no_such_group'' = None \<and>
   execute gateway_config echo_client example_dir ''no_such_group'' ''hi'' [] example_state =
     (Inl (GroupNotFound ''no_such_group''),
      example_state\<lparr>manager := initialize_providers example_dir (manager example_state)\<rparr>) \<and>
   List.map_filter checkout
     (new_events example_state
        (snd (execute gateway_config echo_client example_dir ''no_such_group'' ''hi'' []
                example_state))) = []"
proof -
  have h: "map_of (MODEL_GROUPS gateway_config) ''no_such_group'' = None"
    by code_simp
  note t = unknown_group [OF h, of echo_client example_dir "''hi''" "[]" example_state]
  show ?thesis
    by (intro conjI h t [THEN conjunct2, THEN conjunct1]
          t [THEN conjunct2, THEN conjunct2, THEN conjunct1])
qed

section \<open>Options passed to the provider client\<close>

text \<open>
  C7, as the code has it: every request of a call is sent for a candidate of the group,
  with the candidate's metadata merged with the caller's options. \<open>prompt\<close> and
  \<open>model_name\<close> are those of the call and of the candidate, whatever the caller
  supplied; every other key of the caller has the caller's value, also where the
  metadata has the key; the remaining keys of the metadata have the metadata's values.
\<close>

theorem options_merged:
  assumes "registry_dicts cfg" and "is_dict kwargs"
  shows "\<forall>params \<in> set (List.map_filter request
                          (new_events st (snd (call cfg client dir model_group prompt kwargs st)))).
           \<exists>model_name \<in> set (get_model_group cfg model_group). \<exists>model_details.
              get_model_config cfg model_name = Some model_details \<and>
              merged model_details kwargs prompt model_name params"
proof (cases "get_model_group cfg model_group = []")
  case True
  then show ?thesis
    by (simp add: call_def new_events_def map_filter_Nil)
next
  case False
  let ?st' = "snd (call cfg client dir model_group prompt kwargs st)"
  have "try_models cfg client dir model_group (get_available_providers (manager st)) prompt kwargs
          (get_model_group cfg model_group) None st =
          (fst (call cfg client dir model_group prompt kwargs st), ?st')"
    using False by (simp add: call_def Let_def)
  from try_models_requests [OF this]
  obtain es where t: "trace ?st' = trace st @ es"
    and r: "\<forall>params \<in> set (List.map_filter request es).
              \<exists>model_name \<in> set (get_model_group cfg model_group). \<exists>model_details.
                 get_model_config cfg model_name = Some model_details \<and>
                 params = call_params model_details kwargs prompt model_name"
    by auto
  have n: "new_events st ?st' = es"
    by (simp add: new_events_def t)
  show ?thesis
    unfolding n
  proof
    fix params assume "params \<in> set (List.map_filter request es)"
    with r obtain model_name model_details
      where m: "model_name \<in> set (get_model_group cfg model_group)"
        and d: "get_model_config cfg model_name = Some model_details"
        and p: "params = call_params model_details kwargs prompt model_name"
      by blast
    from merged_call_params [OF registry_dicts_details [OF assms(1) d] assms(2)]
    show "\<exists>model_name \<in> set (get_model_group cfg model_group). \<exists>model_details.
              get_model_config cfg model_name = Some model_details \<and>
              merged model_details kwargs prompt model_name params"
      using m d p by blast
  qed
qed

theorem options_merged_witness:
  "registry_dicts gateway_config \<and> is_dict example_kwargs \<and>
   List.map_filter request
     (new_events example_ready
        (snd (call gateway_config echo_client example_dir ''coding_model_group'' ''hi''
                example_kwargs example_ready))) = [example_params] \<and>
   (\<exists>model_name \<in> set (get_model_group gateway_config ''coding_model_group''). \<exists>model_details.
      get_model_config gateway_config model_name = Some model_details \<and>
      merged model_details example_kwargs ''hi'' model_name example_params) \<and>
   map_of example_params ''mode'' = Some (PStr ''fast'') \<and>
   map_of example_params ''temperature'' = Some (PInt 1)"
proof -
  have h1: "registry_dicts gateway_config"
    by code_simp
  have h2: "is_dict example_kwargs"
    by code_simp
  have r: "List.map_filter request
     (new_events example_ready
        (snd (call gateway_config echo_client example_dir ''coding_model_group'' ''hi''
                example_kwargs example_ready))) = [example_params]"
    by code_simp
  have m: "example_params \<in> set (List.map_filter request
     (new_events example_ready
        (snd (call gateway_config echo_client example_dir ''coding_model_group'' ''hi''
                example_kwargs example_ready))))"
    by (simp only: r list.set_intros)
  note t = options_merged [OF h1 h2, THEN bspec, OF m]
  have v1: "map_of example_params ''mode'' = Some (PStr ''fast'')"
    by code_simp
  have v2: "map_of example_params ''temperature'' = Some (PInt 1)"
    by code_simp
  show ?thesis
    by (intro conjI h1 h2 r t v1 v2)
qed

text \<open>
  A caller that supplies \<open>model_name\<close> does not get it through: the request carries
  the candidate's model name.
\<close>

theorem model_name_overridden_counterexample:
  "is_dict [(''model_name'', PStr ''my-model'')] \<and>
   map (\<lambda>params. map_of params ''model_name'')
     (List.map_filter request
        (new_events example_ready
           (snd (call gateway_config echo_client example_dir ''coding_model_group'' ''hi''
                   [(''model_name'', PStr ''my-model'')] example_ready)))) =
     [Some (PStr ''gemini-2.5-pro'')]"
  by code_simp

section \<open>Providers without credentials\<close>

text \<open>
  C8, as the code has it: when every provider file read for a provider yields no
  credentials (or none is read), initialization goes through and creates no pool for
  the provider: it is absent from the dictionary of pools and from
  \<open>get_available_providers\<close>, and \<open>get_key\<close> for it fails with
  \<open>NoKeysAvailableError\<close>.
\<close>

theorem provider_without_credentials:
  assumes "\<forall>(f, ef) \<in> set (files_of dir provider). credentials ef = []"
  shows "map_of (providers (initialize_providers dir new_manager)) provider = None \<and>
         provider \<notin> set (get_available_providers (initialize_providers dir new_manager)) \<and>
         fst (get_key dir provider new_manager) = Inl (NoKeysAvailableError provider) \<and>
         snd (get_key dir provider new_manager) = initialize_providers dir new_manager"
proof -
  let ?m = "initialize_providers dir new_manager"
  have r: "map_of (providers ?m) provider = None"
    using assms by (simp add: registered_initialize)
  then have q: "queue_of ?m provider = []"
    by (simp add: queue_of_def)
  have g: "get_key dir provider new_manager = get_key dir provider ?m"
    by (rule get_key_uninitialized)
  show ?thesis
    using r q by (simp add: g get_key_initialized registered_iff [symmetric])
qed

theorem provider_without_credentials_witness:
  "files_of example_dir ''groq'' = [(''.env.groq'', KeyLine '' , '')] \<and>
   credentials (KeyLine '' , '') = [] \<and>
   ''groq'' \<notin> set (get_available_providers (initialize_providers example_dir new_manager)) \<and>
   fst (get_key example_dir ''groq'' new_manager) = Inl (NoKeysAvailableError ''groq'')"
proof -
  have h1: "files_of example_dir ''groq'' = [(''.env.groq'', KeyLine '' , '')]"
    by code_simp
  have h2: "credentials (KeyLine '' , '') = []"
    by code_simp
  have h: "\<forall>(f, ef) \<in> set (files_of example_dir ''groq''). credentials ef = []"
    by (simp add: h1 h2)
  note t = provider_without_credentials [OF h]
  show ?thesis
    using t by (intro conjI h1 h2) simp_all
qed

text \<open>
  The file of \<open>groq\<close> holds no key: after initialization the provider has no pool at
  all, rather than an empty one.
\<close>

theorem provider_without_credentials_counterexample:
  "files_of example_dir ''groq'' = [(''.env.groq'', KeyLine '' , '')] \<and>
   credentials (KeyLine '' , '') = [] \<and>
   map_of (providers (initialize_providers example_dir new_manager)) ''groq'' = None \<and>
   map_of (providers (initialize_providers example_dir new_manager)) ''groq'' \<noteq>
     Some \<lparr>keys = [], quarantine = []\<rparr>"
  by code_simp

section \<open>Order of loading and of issuing\<close>




section \<open>Releasing a key of an unknown provider\<close>

text \<open>
  C10: for a provider without a pool, \<open>release_key\<close> returns without an exception and
  leaves the manager, and with it the pool of every registered provider, as it is,
  with and without \<open>is_permanently_invalid\<close>.
\<close>

theorem release_key_unregistered:
  "provider \<notin> set (get_available_providers m) \<Longrightarrow>
   release_key provider key is_permanently_invalid m = m"
  by (simp add: release_key_def registered_iff)

theorem release_key_unregistered_witness:
  "''openai'' \<notin> set (get_available_providers example_manager) \<and>
   release_key ''openai'' ''k9'' False example_manager = example_manager \<and>
   release_key ''openai'' ''k9'' True example_manager = example_manager"
proof -
  have h: "''openai'' \<notin> set (get_available_providers example_manager)"
    by code_simp
  show ?thesis
    using h release_key_unregistered [OF h, of "''k9''" False]
      release_key_unregistered [OF h, of "''k9''" True]
    by simp
qed

end
